theory Spec2Isabelle
  imports Complex_Main
begin

section \<open>JavaScript values\<close>

text \<open>
  The handler of \<^verbatim>\<open>netlify/functions/get-reformulation.js\<close> works on values that come out
  of \<^verbatim>\<open>JSON.parse\<close> and \<^verbatim>\<open>Response.json()\<close>, and on \<^verbatim>\<open>undefined\<close>, the value of a
  property that is not there. A number is the rational value of its binary64 double
  (\<^verbatim>\<open>-0\<close> and \<^verbatim>\<open>0\<close> are both \<open>Fin 0\<close>: they are equally falsy and compare alike), or
  one of the three special doubles. An object is the list of its own properties, each
  name once.
\<close>

datatype jsnum = NaN | PosInf | NegInf | Fin rat

datatype jsval =
    Undefined
  | JNull
  | JBool bool
  | JNum jsnum
  | JStr string
  | JArr "jsval list"
  | JObj "(string \<times> jsval) list"

text \<open>ToBoolean: what \<^verbatim>\<open>!x\<close> and \<^verbatim>\<open>||\<close> look at.\<close>

fun truthy :: "jsval \<Rightarrow> bool" where
  "truthy Undefined = False"
| "truthy JNull = False"
| "truthy (JBool b) = b"
| "truthy (JNum NaN) = False"
| "truthy (JNum (Fin q)) = (q \<noteq> 0)"
| "truthy (JNum PosInf) = True"
| "truthy (JNum NegInf) = True"
| "truthy (JStr s) = (s \<noteq> [])"
| "truthy (JArr xs) = True"
| "truthy (JObj kvs) = True"

text \<open>The prefix operator \<^verbatim>\<open>!\<close>.\<close>

fun js_not :: "jsval \<Rightarrow> bool" where
  "js_not v = (if truthy v then False else True)"

fun nullish :: "jsval \<Rightarrow> bool" where
  "nullish Undefined = True"
| "nullish JNull = True"
| "nullish v = False"

text \<open>
  What the code can throw: an error raised by the runtime (\<^verbatim>\<open>JSON.parse\<close>, \<^verbatim>\<open>fetch\<close>,
  reading a response body), with its message; the TypeError of reading a property of
  \<^verbatim>\<open>undefined\<close> or \<^verbatim>\<open>null\<close>, whose message the engine composes from the value and the
  property name; the TypeError of converting to a string or a number an object that has
  no primitive value.
\<close>

datatype exn = Thrown string | NullishAccess jsval string | NoPrimitive jsval

text \<open>
  Property access \<^verbatim>\<open>v.k\<close>, for the names the handler reads (\<^verbatim>\<open>inputText\<close>, \<^verbatim>\<open>style\<close>,
  \<^verbatim>\<open>token\<close>, \<^verbatim>\<open>success\<close>, \<^verbatim>\<open>score\<close>, \<^verbatim>\<open>candidates\<close>, \<^verbatim>\<open>content\<close>, \<^verbatim>\<open>parts\<close>,
  \<^verbatim>\<open>text\<close>): none of them is a property of a boolean, number, string or array, nor
  inherited by an object, so only an object's own properties answer. Reading a property
  of \<^verbatim>\<open>undefined\<close> or \<^verbatim>\<open>null\<close> throws.
\<close>

fun get_prop :: "jsval \<Rightarrow> string \<Rightarrow> exn + jsval" where
  "get_prop Undefined k = Inl (NullishAccess Undefined k)"
| "get_prop JNull k = Inl (NullishAccess JNull k)"
| "get_prop (JObj kvs) k = Inr (case map_of kvs k of None \<Rightarrow> Undefined | Some v \<Rightarrow> v)"
| "get_prop v k = Inr Undefined"

text \<open>
  Indexed access \<^verbatim>\<open>v[0]\<close>: the first element of an array, the first character of a
  string, the property \<^verbatim>\<open>"0"\<close> of an object, \<^verbatim>\<open>undefined\<close> when there is none.
\<close>

fun get_index0 :: "jsval \<Rightarrow> exn + jsval" where
  "get_index0 Undefined = Inl (NullishAccess Undefined ''0'')"
| "get_index0 JNull = Inl (NullishAccess JNull ''0'')"
| "get_index0 (JArr xs) = Inr (case xs of [] \<Rightarrow> Undefined | x # _ \<Rightarrow> x)"
| "get_index0 (JStr s) = Inr (case s of [] \<Rightarrow> Undefined | c # _ \<Rightarrow> JStr [c])"
| "get_index0 (JObj kvs) = Inr (case map_of kvs ''0'' of None \<Rightarrow> Undefined | Some v \<Rightarrow> v)"
| "get_index0 v = Inr Undefined"

text \<open>Optional chaining \<^verbatim>\<open>v?.k\<close> and \<^verbatim>\<open>v?.[0]\<close>.\<close>

definition opt_prop :: "jsval \<Rightarrow> string \<Rightarrow> exn + jsval" where
  "opt_prop v k = (if nullish v then Inr Undefined else get_prop v k)"

definition opt_index0 :: "jsval \<Rightarrow> exn + jsval" where
  "opt_index0 v = (if nullish v then Inr Undefined else get_index0 v)"

text \<open>
  The comparison \<^verbatim>\<open>a < b\<close> on numbers: false whenever an operand is \<^verbatim>\<open>NaN\<close>.
\<close>

fun num_less :: "jsnum \<Rightarrow> jsnum \<Rightarrow> bool" where
  "num_less NaN b = False"
| "num_less a NaN = False"
| "num_less (Fin x) (Fin y) = (x < y)"
| "num_less (Fin x) PosInf = True"
| "num_less (Fin x) NegInf = False"
| "num_less NegInf NegInf = False"
| "num_less NegInf b = True"
| "num_less PosInf b = False"

section \<open>What the handler exchanges with its surroundings\<close>

text \<open>
  A string the handler hands out is a plain string, or \<^verbatim>\<open>JSON.stringify\<close> of a value,
  kept as that value. The handler stringifies objects only, whose JSON text starts with
  a brace, and none of its plain strings does. \<^verbatim>\<open>JSON.stringify\<close> does not throw on
  them: they are built of strings and of values out of \<^verbatim>\<open>JSON.parse\<close>, which hold no
  cycle and nothing that can be called.
\<close>

datatype jstext = Plain string | Stringify jsval

text \<open>The options of a \<^verbatim>\<open>fetch\<close> call: \<^verbatim>\<open>method\<close>, \<^verbatim>\<open>headers\<close>, \<^verbatim>\<open>body\<close>.\<close>

record request =
  req_method :: string
  req_headers :: "(string \<times> string) list"
  req_body :: jstext

text \<open>
  The Response of a \<^verbatim>\<open>fetch\<close>: \<^verbatim>\<open>ok\<close>, \<^verbatim>\<open>status\<close>, \<^verbatim>\<open>statusText\<close>, and what awaiting
  \<^verbatim>\<open>text()\<close> and \<^verbatim>\<open>json()\<close> gives: the body, or the error thrown.
\<close>

record fetch_response =
  ok :: bool
  status :: nat
  statusText :: string
  resp_text :: "exn + string"
  resp_json :: "exn + jsval"

text \<open>
  The runtime under the handler: \<^verbatim>\<open>JSON.parse\<close>, the digits of a number in a string,
  the number a string stands for in a comparison, the messages of the two TypeErrors,
  and \<^verbatim>\<open>fetch\<close> with the two services behind it.
\<close>

record runtime =
  JSON_parse :: "string \<Rightarrow> exn + jsval"
  NumberToString :: "jsnum \<Rightarrow> string"
  StringToNumber :: "string \<Rightarrow> jsnum"
  TypeError_message :: "jsval \<Rightarrow> string \<Rightarrow> string"
  ToPrimitive_message :: "jsval \<Rightarrow> string"
  fetch :: "string \<Rightarrow> request \<Rightarrow> exn + fetch_response"

text \<open>\<^verbatim>\<open>process.env\<close>: a variable is a string or is not set.\<close>

record process_env =
  GEMINI_API_KEY :: "string option"
  RECAPTCHA_SECRET_KEY :: "string option"

text \<open>
  The inbound event and the object the handler returns. The body of the event is the
  text \<^verbatim>\<open>JSON.parse\<close> reads; when the event has no body, that is the string of the
  \<^verbatim>\<open>null\<close> or \<^verbatim>\<open>undefined\<close> in its place.
\<close>

record event =
  httpMethod :: string
  body :: string

record response =
  statusCode :: nat
  body :: jstext

text \<open>What the handler does besides returning: console output and outbound calls.\<close>

datatype logarg = LogVal jsval | LogStr string | LogExn exn

datatype effect =
    ConsoleError string "logarg list"
  | ConsoleWarn string "logarg list"
  | Fetch string request

fun fetch_urls :: "effect list \<Rightarrow> string list" where
  "fetch_urls [] = []"
| "fetch_urls (Fetch url req # es) = url # fetch_urls es"
| "fetch_urls (e # es) = fetch_urls es"

text \<open>
  A computation inside the \<^verbatim>\<open>try\<close> block: the effects so far, and a value or the
  exception thrown.
\<close>

type_synonym 'a comp = "effect list \<times> (exn + 'a)"

definition retE :: "'a \<Rightarrow> 'a comp" where
  "retE x = ([], Inr x)"

definition liftE :: "exn + 'a \<Rightarrow> 'a comp" where
  "liftE r = ([], r)"

fun bindE :: "'a comp \<Rightarrow> ('a \<Rightarrow> 'b comp) \<Rightarrow> 'b comp" where
  "bindE (tr, Inl e) f = (tr, Inl e)"
| "bindE (tr, Inr x) f = (case f x of (tr', r) \<Rightarrow> (tr @ tr', r))"

definition console_error :: "string \<Rightarrow> logarg list \<Rightarrow> unit comp" where
  "console_error msg args = ([ConsoleError msg args], Inr ())"

definition console_warn :: "string \<Rightarrow> logarg list \<Rightarrow> unit comp" where
  "console_warn msg args = ([ConsoleWarn msg args], Inr ())"

definition do_fetch :: "runtime \<Rightarrow> string \<Rightarrow> request \<Rightarrow> fetch_response comp" where
  "do_fetch rt url req = ([Fetch url req], fetch rt url req)"


section \<open>Conversions\<close>

text \<open>
  ToString, as a template literal \<^verbatim>\<open>${v}\<close> applies it. An object is converted by its
  \<^verbatim>\<open>toString\<close> method: the inherited one answers \<^verbatim>\<open>[object Object]\<close>, but an own
  property \<^verbatim>\<open>toString\<close> hides it, no value out of \<^verbatim>\<open>JSON.parse\<close> can be called, the
  \<^verbatim>\<open>valueOf\<close> tried next gives no primitive either, and the conversion throws a
  TypeError. An array is converted by \<^verbatim>\<open>join\<close>: its elements converted in order,
  \<^verbatim>\<open>null\<close> to the empty string, with commas between them.
\<close>

fun to_string :: "runtime \<Rightarrow> jsval \<Rightarrow> exn + string"
  and join_elements :: "runtime \<Rightarrow> jsval list \<Rightarrow> exn + string" where
  "to_string rt (JStr s) = Inr s"
| "to_string rt Undefined = Inr ''undefined''"
| "to_string rt JNull = Inr ''null''"
| "to_string rt (JBool b) = Inr (if b then ''true'' else ''false'')"
| "to_string rt (JNum n) = Inr (NumberToString rt n)"
| "to_string rt (JObj kvs) =
     (if map_of kvs ''toString'' = None then Inr ''[object Object]''
      else Inl (NoPrimitive (JObj kvs)))"
| "to_string rt (JArr xs) = join_elements rt xs"
| "join_elements rt [] = Inr []"
| "join_elements rt (x # xs) =
     (case (if nullish x then Inr [] else to_string rt x) of
        Inl e \<Rightarrow> Inl e
      | Inr s \<Rightarrow>
          (case xs of
             [] \<Rightarrow> Inr s
           | y # ys \<Rightarrow>
               (case join_elements rt xs of
                  Inl e \<Rightarrow> Inl e
                | Inr t \<Rightarrow> Inr (s @ '','' @ t))))"

fun env_to_string :: "string option \<Rightarrow> string" where
  "env_to_string None = ''undefined''"
| "env_to_string (Some s) = s"

fun env_not :: "string option \<Rightarrow> bool" where
  "env_not None = True"
| "env_not (Some s) = (s = [])"

text \<open>
  ToNumber, as \<^verbatim>\<open>x < 0.5\<close> applies it to its left operand. An object or an array is
  first converted to a primitive: \<^verbatim>\<open>valueOf\<close> gives none, so it is the string of
  \<^verbatim>\<open>toString\<close>, and the conversion throws where that of a string does. The string of
  an object, \<^verbatim>\<open>[object Object]\<close>, is no number.
\<close>

fun to_number :: "runtime \<Rightarrow> jsval \<Rightarrow> exn + jsnum" where
  "to_number rt Undefined = Inr NaN"
| "to_number rt JNull = Inr (Fin 0)"
| "to_number rt (JBool b) = Inr (if b then Fin 1 else Fin 0)"
| "to_number rt (JNum n) = Inr n"
| "to_number rt (JStr s) = Inr (StringToNumber rt s)"
| "to_number rt (JArr xs) =
     (case join_elements rt xs of
        Inl e \<Rightarrow> Inl e
      | Inr s \<Rightarrow> Inr (StringToNumber rt s))"
| "to_number rt (JObj kvs) =
     (if map_of kvs ''toString'' = None then Inr NaN else Inl (NoPrimitive (JObj kvs)))"

definition js_less :: "runtime \<Rightarrow> jsval \<Rightarrow> jsnum \<Rightarrow> exn + bool" where
  "js_less rt v n =
     (case to_number rt v of Inl e \<Rightarrow> Inl e | Inr m \<Rightarrow> Inr (num_less m n))"

definition error_message :: "runtime \<Rightarrow> exn \<Rightarrow> string" where
  "error_message rt e =
     (case e of
        Thrown m \<Rightarrow> m
      | NullishAccess v k \<Rightarrow> TypeError_message rt v k
      | NoPrimitive v \<Rightarrow> ToPrimitive_message rt v)"

section \<open>The handler\<close>

definition API_KEY :: "process_env \<Rightarrow> string option" where
  "API_KEY env = GEMINI_API_KEY env"

definition RECAPTCHA_SECRET :: "process_env \<Rightarrow> string option" where
  "RECAPTCHA_SECRET env = RECAPTCHA_SECRET_KEY env"

definition API_URL :: "process_env \<Rightarrow> string" where
  "API_URL env =
     ''https://generativelanguage.googleapis.com/v1beta/models/gemini-2.5-flash-preview-09-2025:generateContent?key=''
     @ env_to_string (API_KEY env)"

definition RECAPTCHA_VERIFY_URL :: string where
  "RECAPTCHA_VERIFY_URL = ''https://www.google.com/recaptcha/api/siteverify''"

text \<open>Lines 89 to 100: the text of the first part of the first candidate, or nothing.\<close>

definition extract_result :: "jsval \<Rightarrow> response comp" where
  "extract_result result =
     bindE (liftE (get_prop result ''candidates'')) (\<lambda>candidates.
     bindE (if js_not candidates then retE True
            else
              bindE (liftE (get_index0 candidates)) (\<lambda>c0.
              bindE (liftE (get_prop c0 ''content'')) (\<lambda>content.
              bindE (liftE (opt_prop content ''parts'')) (\<lambda>parts.
              bindE (liftE (opt_index0 parts)) (\<lambda>p0.
              bindE (liftE (opt_prop p0 ''text'')) (\<lambda>t.
              retE (js_not t))))))) (\<lambda>invalid.
     if invalid then
       bindE (console_error ''Invalid API response:'' [LogVal result]) (\<lambda>_.
       retE \<lparr>statusCode = 500, body = Plain ''Invalid response from Google AI.''\<rparr>)
     else
       bindE (liftE (get_prop result ''candidates'')) (\<lambda>candidates.
       bindE (liftE (get_index0 candidates)) (\<lambda>c0.
       bindE (liftE (get_prop c0 ''content'')) (\<lambda>content.
       bindE (liftE (get_prop content ''parts'')) (\<lambda>parts.
       bindE (liftE (get_index0 parts)) (\<lambda>p0.
       bindE (liftE (get_prop p0 ''text'')) (\<lambda>reformulatedText.
       retE \<lparr>statusCode = 200,
             body = Stringify (JObj [(''reformulatedText'', reformulatedText)])\<rparr>))))))))"


text \<open>
  Lines 54 to 87: the prompt, the payload and the call of the generation service. The
  prompt interpolates the style, which can throw, before anything is sent.
\<close>

definition systemPrompt :: "string \<Rightarrow> string" where
  "systemPrompt style_text =
     ''You are an expert text reformulator. Your task is to rewrite the given text in a new style.\<newline>''
     @ ''You MUST adhere to the following rules:\<newline>''
     @ ''1.  The rewritten text MUST be in the **same language** as the original input text.\<newline>''
     @ ''2.  The rewritten text MUST have **approximately the same length** (word count or character count) as the original input text.\<newline>''
     @ ''3.  You MUST rewrite the text in the following style: **'' @ style_text @ ''**.\<newline>''
     @ ''4.  Respond ONLY with the rewritten text. Do not add apologies, preambles, explanations, or any other text.''"

text \<open>
  The sampling parameters are the doubles of the literals \<^verbatim>\<open>0.8\<close>, \<^verbatim>\<open>0.9\<close> and \<^verbatim>\<open>40\<close>.
\<close>

definition payload :: "jsval \<Rightarrow> string \<Rightarrow> jsval" where
  "payload inputText prompt =
     JObj [
       (''contents'', JArr [JObj [(''parts'', JArr [JObj [(''text'', inputText)]])]]),
       (''systemInstruction'',
          JObj [(''parts'', JArr [JObj [(''text'', JStr prompt)]])]),
       (''generationConfig'',
          JObj [(''temperature'', JNum (Fin (3602879701896397 / 4503599627370496))),
                (''topP'', JNum (Fin (8106479329266893 / 9007199254740992))),
                (''topK'', JNum (Fin 40))])]"

definition generation_request :: "jsval \<Rightarrow> string \<Rightarrow> request" where
  "generation_request inputText style_text =
     \<lparr>req_method = ''POST'',
      req_headers = [(''Content-Type'', ''application/json'')],
      req_body = Stringify (payload inputText (systemPrompt style_text))\<rparr>"

definition call_generation :: "runtime \<Rightarrow> process_env \<Rightarrow> jsval \<Rightarrow> jsval \<Rightarrow> response comp" where
  "call_generation rt env inputText style =
     bindE (liftE (to_string rt style)) (\<lambda>style_text.
     bindE (do_fetch rt (API_URL env) (generation_request inputText style_text)) (\<lambda>res.
     if ok res then bindE (liftE (resp_json res)) extract_result
     else
       bindE (liftE (resp_text res)) (\<lambda>errorBody.
       bindE (console_error ''Google AI API Error:'' [LogStr errorBody]) (\<lambda>_.
       retE \<lparr>statusCode = status res,
             body = Plain (''Google AI Error: '' @ statusText res)\<rparr>))))"

text \<open>
  Lines 37 to 52: the verification of the token, and the test of its outcome. The body
  of the call interpolates the token, which can throw, before the call is made; the
  comparison of the score converts it to a number, which can throw too.
\<close>

definition recaptcha_request :: "process_env \<Rightarrow> string \<Rightarrow> request" where
  "recaptcha_request env token_text =
     \<lparr>req_method = ''POST'',
      req_headers = [(''Content-Type'', ''application/x-www-form-urlencoded'')],
      req_body = Plain (''secret='' @ env_to_string (RECAPTCHA_SECRET env)
                        @ ''&response='' @ token_text)\<rparr>"

definition verify_recaptcha ::
  "runtime \<Rightarrow> process_env \<Rightarrow> jsval \<Rightarrow> jsval \<Rightarrow> jsval \<Rightarrow> response comp" where
  "verify_recaptcha rt env inputText style token =
     bindE (liftE (to_string rt token)) (\<lambda>token_text.
     bindE (do_fetch rt RECAPTCHA_VERIFY_URL (recaptcha_request env token_text))
       (\<lambda>recaptchaResponse.
     bindE (liftE (resp_json recaptchaResponse)) (\<lambda>recaptchaData.
     bindE (liftE (get_prop recaptchaData ''success'')) (\<lambda>success.
     bindE (if js_not success then retE True
            else
              bindE (liftE (get_prop recaptchaData ''score'')) (\<lambda>score.
              liftE (js_less rt score (Fin (1 / 2))))) (\<lambda>rejected.
     if rejected then
       bindE (console_warn ''reCAPTCHA verification failed. Likely a bot.''
                [LogVal recaptchaData]) (\<lambda>_.
       retE \<lparr>statusCode = 403, body = Plain ''Forbidden. Bot-like activity detected.''\<rparr>)
     else call_generation rt env inputText style)))))"

text \<open>Lines 25 to 35: the payload and the two secrets.\<close>

definition handler_try :: "runtime \<Rightarrow> process_env \<Rightarrow> event \<Rightarrow> response comp" where
  "handler_try rt env ev =
     bindE (liftE (JSON_parse rt (event.body ev))) (\<lambda>parsed.
     bindE (liftE (get_prop parsed ''inputText'')) (\<lambda>inputText.
     bindE (liftE (get_prop parsed ''style'')) (\<lambda>style.
     bindE (liftE (get_prop parsed ''token'')) (\<lambda>token.
     if js_not inputText \<or> js_not style \<or> js_not token then
       retE \<lparr>statusCode = 400, body = Plain ''Missing inputText, style, or token''\<rparr>
     else if env_not (API_KEY env) \<or> env_not (RECAPTCHA_SECRET env) then
       bindE (console_error
                ''Server configuration error: Missing API_KEY or RECAPTCHA_SECRET'' []) (\<lambda>_.
       retE \<lparr>statusCode = 500,
             body = Plain ''Server configuration error. Please contact the administrator.''\<rparr>)
     else verify_recaptcha rt env inputText style token))))"

text \<open>
  The handler: the method test, the \<^verbatim>\<open>try\<close> block and its \<^verbatim>\<open>catch\<close>. It gives the
  response and, in order, what it logged and fetched.
\<close>

definition handler :: "runtime \<Rightarrow> process_env \<Rightarrow> event \<Rightarrow> response \<times> effect list" where
  "handler rt env ev =
     (if httpMethod ev \<noteq> ''POST'' then
        (\<lparr>statusCode = 405, body = Plain ''Method Not Allowed''\<rparr>, [])
      else
        (case handler_try rt env ev of
           (tr, Inr r) \<Rightarrow> (r, tr)
         | (tr, Inl e) \<Rightarrow>
             (\<lparr>statusCode = 500,
               body = Stringify (JObj [(''error'', JStr (error_message rt e))])\<rparr>,
              tr @ [ConsoleError ''Serverless function error:'' [LogExn e]])))"


section \<open>Concrete runs\<close>

text \<open>
  The scenario of the specification, and variations of it, as concrete inputs: a runtime
  whose \<^verbatim>\<open>JSON.parse\<close> knows the request bodies used below (every other text handed to
  it below is a truncated JSON text, for which the engine reports the end of the input),
  and whose \<^verbatim>\<open>fetch\<close> answers with one given response for the verification service and
  one for the generation service. The runs convert no number to a string and no string
  to a number, so those two conversions of the runtime are never consulted.
\<close>

definition node_parse :: "string \<Rightarrow> exn + jsval" where
  \<open>node_parse s =
     (if s = ''{"inputText":"Hello world","style":"pirate","token":"abc"}'' then
        Inr (JObj [(''inputText'', JStr ''Hello world''), (''style'', JStr ''pirate''),
                   (''token'', JStr ''abc'')])
      else if s = ''{"inputText":"Hello world","style":"","token":"abc"}'' then
        Inr (JObj [(''inputText'', JStr ''Hello world''), (''style'', JStr []),
                   (''token'', JStr ''abc'')])
      else if s = ''{"inputText":"Hello world","style":"pirate"}'' then
        Inr (JObj [(''inputText'', JStr ''Hello world''), (''style'', JStr ''pirate'')])
      else if s = ''{"inputText":"Hello world","style":"pirate","token":{"toString":1}}'' then
        Inr (JObj [(''inputText'', JStr ''Hello world''), (''style'', JStr ''pirate''),
                   (''token'', JObj [(''toString'', JNum (Fin 1))])])
      else if s = ''{"inputText":"Hello world","style":{"toString":1},"token":"abc"}'' then
        Inr (JObj [(''inputText'', JStr ''Hello world''),
                   (''style'', JObj [(''toString'', JNum (Fin 1))]),
                   (''token'', JStr ''abc'')])
      else if s = ''null'' then Inr JNull
      else Inl (Thrown ''Unexpected end of JSON input''))\<close>

definition node_runtime :: "fetch_response \<Rightarrow> fetch_response \<Rightarrow> runtime" where
  "node_runtime verification generation =
     \<lparr>JSON_parse = node_parse,
      NumberToString = (\<lambda>n. []),
      StringToNumber = (\<lambda>s. NaN),
      TypeError_message = (\<lambda>v k.
        ''Cannot read properties of '' @ (if v = JNull then ''null'' else ''undefined'')
        @ '' (reading '' @ [CHR 0x27] @ k @ [CHR 0x27] @ '')''),
      ToPrimitive_message = (\<lambda>v. ''Cannot convert object to primitive value''),
      fetch = (\<lambda>url req.
        Inr (if url = RECAPTCHA_VERIFY_URL then verification else generation))\<rparr>"

definition reply :: "nat \<Rightarrow> string \<Rightarrow> string \<Rightarrow> jsval \<Rightarrow> fetch_response" where
  "reply code reason raw parsed =
     \<lparr>ok = (200 \<le> code \<and> code \<le> 299), status = code, statusText = reason,
      resp_text = Inr raw, resp_json = Inr parsed\<rparr>"

definition post :: "string \<Rightarrow> event" where
  "post b = \<lparr>httpMethod = ''POST'', body = b\<rparr>"

definition scenario_body :: string where
  \<open>scenario_body = ''{"inputText":"Hello world","style":"pirate","token":"abc"}''\<close>

text \<open>
  Other request bodies: an empty style, no token, a text cut short, and a token and a
  style that are objects with a property \<^verbatim>\<open>toString\<close>.
\<close>

definition empty_style_body :: string where
  \<open>empty_style_body = ''{"inputText":"Hello world","style":"","token":"abc"}''\<close>

definition no_token_body :: string where
  \<open>no_token_body = ''{"inputText":"Hello world","style":"pirate"}''\<close>

definition truncated_body :: string where
  \<open>truncated_body = ''{"inputText":"Hello world",''\<close>

definition object_token_body :: string where
  \<open>object_token_body =
     ''{"inputText":"Hello world","style":"pirate","token":{"toString":1}}''\<close>

definition object_style_body :: string where
  \<open>object_style_body =
     ''{"inputText":"Hello world","style":{"toString":1},"token":"abc"}''\<close>

definition scenario_payload :: jsval where
  "scenario_payload =
     JObj [(''inputText'', JStr ''Hello world''), (''style'', JStr ''pirate''),
           (''token'', JStr ''abc'')]"

definition scenario_env :: process_env where
  "scenario_env =
     \<lparr>GEMINI_API_KEY = Some ''AIza-key'', RECAPTCHA_SECRET_KEY = Some ''6L-secret''\<rparr>"

definition no_secrets :: process_env where
  "no_secrets = \<lparr>GEMINI_API_KEY = None, RECAPTCHA_SECRET_KEY = None\<rparr>"

text \<open>Verification answers: a score of 0.9 (its double), a score of 0.5, no score.\<close>

definition verified_0_9 :: fetch_response where
  \<open>verified_0_9 = reply 200 ''OK'' ''{"success":true,"score":0.9}''
     (JObj [(''success'', JBool True),
            (''score'', JNum (Fin (8106479329266893 / 9007199254740992)))])\<close>

definition verified_0_5 :: fetch_response where
  \<open>verified_0_5 = reply 200 ''OK'' ''{"success":true,"score":0.5}''
     (JObj [(''success'', JBool True), (''score'', JNum (Fin (1 / 2)))])\<close>

definition verified_no_score :: fetch_response where
  \<open>verified_no_score = reply 200 ''OK'' ''{"success":true}''
     (JObj [(''success'', JBool True)])\<close>

text \<open>
  Generation answers: the text of the scenario; the same as second candidate after an
  empty one; no candidate; an empty text; no quota, once with a body and once with a
  body that breaks off while it is read; no permission.
\<close>

definition ahoy :: jsval where
  "ahoy =
     JObj [(''content'', JObj [(''parts'', JArr [JObj [(''text'', JStr ''Ahoy, world!'')]])])]"

definition generated :: fetch_response where
  \<open>generated = reply 200 ''OK''
     ''{"candidates":[{"content":{"parts":[{"text":"Ahoy, world!"}]}}]}''
     (JObj [(''candidates'', JArr [ahoy])])\<close>

definition generated_second :: fetch_response where
  \<open>generated_second = reply 200 ''OK''
     ''{"candidates":[{},{"content":{"parts":[{"text":"Ahoy, world!"}]}}]}''
     (JObj [(''candidates'', JArr [JObj [], ahoy])])\<close>

definition generated_none :: fetch_response where
  \<open>generated_none = reply 200 ''OK'' ''{"candidates":[]}''
     (JObj [(''candidates'', JArr [])])\<close>

definition generated_empty_text :: fetch_response where
  \<open>generated_empty_text = reply 200 ''OK''
     ''{"candidates":[{"content":{"parts":[{"text":""}]}}]}''
     (JObj [(''candidates'',
        JArr [JObj [(''content'', JObj [(''parts'', JArr [JObj [(''text'', JStr [])]])])]])])\<close>

definition quota_exceeded :: fetch_response where
  \<open>quota_exceeded = reply 429 ''Too Many Requests''
     ''{"error":{"code":429,"status":"RESOURCE_EXHAUSTED"}}''
     (JObj [(''error'', JObj [(''code'', JNum (Fin 429)),
                              (''status'', JStr ''RESOURCE_EXHAUSTED'')])])\<close>

definition quota_exceeded_cut :: fetch_response where
  "quota_exceeded_cut =
     \<lparr>ok = False, status = 429, statusText = ''Too Many Requests'',
      resp_text = Inl (Thrown ''terminated''), resp_json = Inl (Thrown ''terminated'')\<rparr>"

definition permission_denied :: fetch_response where
  \<open>permission_denied = reply 403 ''Forbidden''
     ''{"error":{"code":403,"status":"PERMISSION_DENIED"}}''
     (JObj [(''error'', JObj [(''code'', JNum (Fin 403)),
                              (''status'', JStr ''PERMISSION_DENIED'')])])\<close>

section \<open>The steps of the handler, one at a time\<close>

lemma bindE_liftE:
  "bindE (liftE r) f = (case r of Inl e \<Rightarrow> ([], Inl e) | Inr x \<Rightarrow> f x)"
  by (cases r; cases "f (projr r)") (simp_all add: liftE_def)

lemma bindE_retE: "bindE (retE x) f = f x"
  by (cases "f x") (simp add: retE_def)

lemma bindE_console_error:
  "bindE (console_error msg args) f =
     (case f () of (tr, r) \<Rightarrow> (ConsoleError msg args # tr, r))"
  by (simp add: console_error_def)

lemma bindE_console_warn:
  "bindE (console_warn msg args) f =
     (case f () of (tr, r) \<Rightarrow> (ConsoleWarn msg args # tr, r))"
  by (simp add: console_warn_def)

lemma bindE_do_fetch:
  "bindE (do_fetch rt url req) f =
     (case fetch rt url req of
        Inl e \<Rightarrow> ([Fetch url req], Inl e)
      | Inr res \<Rightarrow> (case f res of (tr, r) \<Rightarrow> (Fetch url req # tr, r)))"
  by (cases "fetch rt url req") (simp_all add: do_fetch_def)

lemmas bindE_simps =
  bindE_liftE bindE_retE bindE_console_error bindE_console_warn bindE_do_fetch

lemmas fixture_defs = node_parse_def node_runtime_def reply_def post_def scenario_body_def
  scenario_payload_def scenario_env_def no_secrets_def verified_0_9_def verified_0_5_def
  verified_no_score_def ahoy_def generated_def generated_second_def generated_none_def
  generated_empty_text_def quota_exceeded_def API_KEY_def RECAPTCHA_SECRET_def
  RECAPTCHA_VERIFY_URL_def API_URL_def empty_style_body_def no_token_body_def
  truncated_body_def object_token_body_def object_style_body_def quota_exceeded_cut_def
  permission_denied_def

lemmas handler_unfold = handler_def handler_try_def verify_recaptcha_def call_generation_def
  extract_result_def bindE_simps retE_def opt_prop_def opt_index0_def js_less_def
  error_message_def

lemma fetch_urls_append: "fetch_urls (xs @ ys) = fetch_urls xs @ fetch_urls ys"
  by (induction xs rule: fetch_urls.induct) simp_all

subsection \<open>The payload and the secrets\<close>

lemma handler_try_parse_error:
  assumes "JSON_parse rt (event.body ev) = Inl e"
  shows "handler_try rt env ev = ([], Inl e)"
  using assms by (simp add: handler_try_def bindE_simps)

lemma handler_try_nullish:
  assumes "JSON_parse rt (event.body ev) = Inr v" "nullish v"
  shows "handler_try rt env ev = ([], Inl (NullishAccess v ''inputText''))"
  using assms by (cases v) (simp_all add: handler_try_def bindE_simps)

lemma get_prop_total: "\<not> nullish v \<Longrightarrow> \<exists>x. get_prop v k = Inr x"
  by (cases v) simp_all

lemma get_prop_Inr_not_nullish: "get_prop v k = Inr x \<Longrightarrow> \<not> nullish v"
  by (cases v) simp_all

lemma get_index0_Inr_not_nullish: "get_index0 v = Inr x \<Longrightarrow> \<not> nullish v"
  by (cases v) simp_all

lemma get_index0_truthy: "get_index0 v = Inr x \<Longrightarrow> \<not> nullish x \<Longrightarrow> truthy v"
  by (cases v) (auto split: list.splits)

lemma handler_try_falsy:
  assumes "JSON_parse rt (event.body ev) = Inr v"
    and "get_prop v ''inputText'' = Inr a"
    and "get_prop v ''style'' = Inr b"
    and "get_prop v ''token'' = Inr c"
    and "\<not> truthy a \<or> \<not> truthy b \<or> \<not> truthy c"
  shows "handler_try rt env ev =
           ([], Inr \<lparr>statusCode = 400, body = Plain ''Missing inputText, style, or token''\<rparr>)"
  using assms by (auto simp add: handler_try_def bindE_simps retE_def)

lemma handler_try_no_secret:
  assumes "JSON_parse rt (event.body ev) = Inr v"
    and "get_prop v ''inputText'' = Inr a"
    and "get_prop v ''style'' = Inr b"
    and "get_prop v ''token'' = Inr c"
    and "truthy a" "truthy b" "truthy c"
    and "env_not (API_KEY env) \<or> env_not (RECAPTCHA_SECRET env)"
  shows "handler_try rt env ev =
           ([ConsoleError ''Server configuration error: Missing API_KEY or RECAPTCHA_SECRET'' []],
            Inr \<lparr>statusCode = 500,
                 body = Plain ''Server configuration error. Please contact the administrator.''\<rparr>)"
  using assms by (auto simp add: handler_try_def bindE_simps retE_def)

lemma handler_try_valid:
  assumes "JSON_parse rt (event.body ev) = Inr v"
    and "get_prop v ''inputText'' = Inr a"
    and "get_prop v ''style'' = Inr b"
    and "get_prop v ''token'' = Inr c"
    and "truthy a" "truthy b" "truthy c"
    and "\<not> env_not (API_KEY env)" "\<not> env_not (RECAPTCHA_SECRET env)"
  shows "handler_try rt env ev = verify_recaptcha rt env a b c"
  using assms by (simp add: handler_try_def bindE_simps)

subsection \<open>The verification\<close>

lemma verify_recaptcha_no_token:
  assumes "to_string rt c = Inl e"
  shows "verify_recaptcha rt env a b c = ([], Inl e)"
  using assms by (simp add: verify_recaptcha_def bindE_simps)

lemma verify_recaptcha_accepted:
  assumes "to_string rt c = Inr ct"
    and "fetch rt RECAPTCHA_VERIFY_URL (recaptcha_request env ct) = Inr vres"
    and "resp_json vres = Inr d"
    and "get_prop d ''success'' = Inr s" "truthy s"
    and "get_prop d ''score'' = Inr sc" "js_less rt sc (Fin (1 / 2)) = Inr False"
  shows "verify_recaptcha rt env a b c =
           (case call_generation rt env a b of
              (tr, r) \<Rightarrow> (Fetch RECAPTCHA_VERIFY_URL (recaptcha_request env ct) # tr, r))"
  using assms by (simp add: verify_recaptcha_def bindE_simps)

lemma verify_recaptcha_rejected:
  assumes "to_string rt c = Inr ct"
    and "fetch rt RECAPTCHA_VERIFY_URL (recaptcha_request env ct) = Inr vres"
    and "resp_json vres = Inr d"
    and "get_prop d ''success'' = Inr s"
    and "get_prop d ''score'' = Inr sc"
    and "\<not> truthy s \<or> js_less rt sc (Fin (1 / 2)) = Inr True"
  shows "verify_recaptcha rt env a b c =
           ([Fetch RECAPTCHA_VERIFY_URL (recaptcha_request env ct),
             ConsoleWarn ''reCAPTCHA verification failed. Likely a bot.'' [LogVal d]],
            Inr \<lparr>statusCode = 403, body = Plain ''Forbidden. Bot-like activity detected.''\<rparr>)"
  using assms by (auto simp add: verify_recaptcha_def bindE_simps retE_def)

subsection \<open>The generation call and its result\<close>

lemma call_generation_no_style:
  assumes "to_string rt b = Inl e"
  shows "call_generation rt env a b = ([], Inl e)"
  using assms by (simp add: call_generation_def bindE_simps)

lemma call_generation_not_ok:
  assumes "to_string rt b = Inr bt"
    and "fetch rt (API_URL env) (generation_request a bt) = Inr g"
    and "\<not> ok g" "resp_text g = Inr errorBody"
  shows "call_generation rt env a b =
           ([Fetch (API_URL env) (generation_request a bt),
             ConsoleError ''Google AI API Error:'' [LogStr errorBody]],
            Inr \<lparr>statusCode = status g, body = Plain (''Google AI Error: '' @ statusText g)\<rparr>)"
  using assms by (simp add: call_generation_def bindE_simps retE_def)

lemma call_generation_unreadable:
  assumes "to_string rt b = Inr bt"
    and "fetch rt (API_URL env) (generation_request a bt) = Inr g"
    and "\<not> ok g" "resp_text g = Inl e"
  shows "call_generation rt env a b = ([Fetch (API_URL env) (generation_request a bt)], Inl e)"
  using assms by (simp add: call_generation_def bindE_simps)

lemma call_generation_ok:
  assumes "to_string rt b = Inr bt"
    and "fetch rt (API_URL env) (generation_request a bt) = Inr g"
    and "ok g" "resp_json g = Inr result"
  shows "call_generation rt env a b =
           (case extract_result result of
              (tr, r) \<Rightarrow> (Fetch (API_URL env) (generation_request a bt) # tr, r))"
  using assms by (simp add: call_generation_def bindE_simps)

lemma extract_result_text:
  assumes "get_prop result ''candidates'' = Inr cands"
    and "get_index0 cands = Inr cand"
    and "get_prop cand ''content'' = Inr content"
    and "get_prop content ''parts'' = Inr parts"
    and "get_index0 parts = Inr part"
    and "get_prop part ''text'' = Inr t"
    and "truthy t"
  shows "extract_result result =
           ([], Inr \<lparr>statusCode = 200, body = Stringify (JObj [(''reformulatedText'', t)])\<rparr>)"
proof -
  have "\<not> nullish cand" "\<not> nullish content" "\<not> nullish parts" "\<not> nullish part"
    using assms by (auto dest: get_prop_Inr_not_nullish get_index0_Inr_not_nullish)
  moreover from this have "truthy cands"
    using assms(2) by (auto dest: get_index0_truthy)
  ultimately show ?thesis
    using assms by (simp add: extract_result_def bindE_simps retE_def opt_prop_def opt_index0_def)
qed

lemma extract_result_falsy_text:
  assumes "get_prop result ''candidates'' = Inr cands"
    and "get_index0 cands = Inr cand"
    and "get_prop cand ''content'' = Inr content"
    and "get_prop content ''parts'' = Inr parts"
    and "get_index0 parts = Inr part"
    and "get_prop part ''text'' = Inr t"
    and "\<not> truthy t"
  shows "extract_result result =
           ([ConsoleError ''Invalid API response:'' [LogVal result]],
            Inr \<lparr>statusCode = 500, body = Plain ''Invalid response from Google AI.''\<rparr>)"
proof -
  have "\<not> nullish cand" "\<not> nullish content" "\<not> nullish parts" "\<not> nullish part"
    using assms by (auto dest: get_prop_Inr_not_nullish get_index0_Inr_not_nullish)
  then show ?thesis
    using assms by (simp add: extract_result_def bindE_simps retE_def opt_prop_def opt_index0_def)
qed

lemma extract_result_cases:
  "(\<exists>e. extract_result result = ([], Inl e))
   \<or> extract_result result =
        ([ConsoleError ''Invalid API response:'' [LogVal result]],
         Inr \<lparr>statusCode = 500, body = Plain ''Invalid response from Google AI.''\<rparr>)
   \<or> (\<exists>t. extract_result result =
        ([], Inr \<lparr>statusCode = 200, body = Stringify (JObj [(''reformulatedText'', t)])\<rparr>))"
  by (simp add: extract_result_def bindE_simps retE_def split: sum.splits)

lemma extract_result_no_candidates:
  assumes "get_prop result ''candidates'' = Inr candidates" "\<not> truthy candidates"
  shows "extract_result result =
           ([ConsoleError ''Invalid API response:'' [LogVal result]],
            Inr \<lparr>statusCode = 500, body = Plain ''Invalid response from Google AI.''\<rparr>)"
  using assms by (simp add: extract_result_def bindE_simps retE_def)

text \<open>
  The one access of line 89 without \<^verbatim>\<open>?.\<close>: when \<^verbatim>\<open>candidates\<close> is there and its first
  element is not, \<^verbatim>\<open>.content\<close> throws.
\<close>

lemma extract_result_no_first_candidate:
  assumes "get_prop result ''candidates'' = Inr candidates" "truthy candidates"
    and "get_index0 candidates = Inr candidate" "nullish candidate"
  shows "extract_result result = ([], Inl (NullishAccess candidate ''content''))"
  using assms by (cases candidate) (simp_all add: extract_result_def bindE_simps)

text \<open>
  Once the style is interpolated, whatever the generation service does, the generation
  step fetches once, warns never, and answers 403 only when the service did.
\<close>

lemma call_generation_shape:
  assumes "to_string rt b = Inr bt"
  shows "\<exists>tr r. call_generation rt env a b = (Fetch (API_URL env) (generation_request a bt) # tr, r)
     \<and> fetch_urls tr = []
     \<and> (\<forall>w args. ConsoleWarn w args \<notin> set tr)
     \<and> (\<forall>resp. r = Inr resp \<longrightarrow>
           response.body resp \<noteq> Plain ''Forbidden. Bot-like activity detected.''
           \<and> (statusCode resp = 403 \<longrightarrow>
                (\<exists>g. fetch rt (API_URL env) (generation_request a bt) = Inr g
                   \<and> \<not> ok g \<and> status g = 403
                   \<and> resp = \<lparr>statusCode = 403,
                              body = Plain (''Google AI Error: '' @ statusText g)\<rparr>)))"
proof (cases "fetch rt (API_URL env) (generation_request a bt)")
  case (Inl e)
  with assms show ?thesis
    by (simp add: call_generation_def bindE_simps)
next
  case (Inr g)
  show ?thesis
  proof (cases "ok g")
    case False
    with Inr assms show ?thesis
      by (cases "resp_text g") (auto simp add: call_generation_def bindE_simps retE_def)
  next
    case True
    show ?thesis
    proof (cases "resp_json g")
      case (Inl e)
      with Inr True assms show ?thesis
        by (simp add: call_generation_def bindE_simps)
    next
      case res: (Inr result)
      from extract_result_cases[of result] Inr True res assms show ?thesis
        by (auto simp add: call_generation_def bindE_simps)
    qed
  qed
qed

subsection \<open>Without a secret, nothing is fetched\<close>

lemma handler_try_no_secret_quiet:
  assumes "env_not (API_KEY env) \<or> env_not (RECAPTCHA_SECRET env)"
  shows "fetch_urls (fst (handler_try rt env ev)) = []"
  using assms by (auto simp add: handler_try_def bindE_simps retE_def split: sum.splits)

subsection \<open>A request that reaches the verification\<close>

lemma handler_reaches_verification:
  assumes "httpMethod ev = ''POST''"
    and "JSON_parse rt (event.body ev) = Inr parsed"
    and "get_prop parsed ''inputText'' = Inr inputText" "truthy inputText"
    and "get_prop parsed ''style'' = Inr style" "truthy style"
    and "get_prop parsed ''token'' = Inr token" "truthy token"
    and "GEMINI_API_KEY env = Some key" "key \<noteq> []"
    and "RECAPTCHA_SECRET_KEY env = Some secret" "secret \<noteq> []"
  shows "handler_try rt env ev = verify_recaptcha rt env inputText style token"
  using assms(9-12)
  by (intro handler_try_valid[OF assms(2,3,5,7,4,6,8)])
    (simp_all add: API_KEY_def RECAPTCHA_SECRET_def)

text \<open>
  A verification that fails, or succeeds with a score below 0.5, is answered with 403
  and the generation service is not called.
\<close>

lemma verification_rejected_is_403:
  assumes "httpMethod ev = ''POST''"
    and "JSON_parse rt (event.body ev) = Inr parsed"
    and "get_prop parsed ''inputText'' = Inr inputText" "truthy inputText"
    and "get_prop parsed ''style'' = Inr style" "truthy style"
    and "get_prop parsed ''token'' = Inr token" "truthy token"
    and "GEMINI_API_KEY env = Some key" "key \<noteq> []"
    and "RECAPTCHA_SECRET_KEY env = Some secret" "secret \<noteq> []"
    and "to_string rt token = Inr token_text"
    and "fetch rt RECAPTCHA_VERIFY_URL (recaptcha_request env token_text) = Inr vres"
    and "resp_json vres = Inr recaptchaData"
    and "get_prop recaptchaData ''success'' = Inr success"
    and "get_prop recaptchaData ''score'' = Inr score"
    and "success = JBool False
         \<or> (success = JBool True \<and> (\<exists>x. score = JNum (Fin x) \<and> x < 1 / 2))"
  shows "handler rt env ev =
           (\<lparr>statusCode = 403, body = Plain ''Forbidden. Bot-like activity detected.''\<rparr>,
            [Fetch RECAPTCHA_VERIFY_URL (recaptcha_request env token_text),
             ConsoleWarn ''reCAPTCHA verification failed. Likely a bot.'' [LogVal recaptchaData]])"
proof -
  have "handler_try rt env ev = verify_recaptcha rt env inputText style token"
    by (rule handler_reaches_verification[OF assms(1-12)])
  also have "\<dots> =
      ([Fetch RECAPTCHA_VERIFY_URL (recaptcha_request env token_text),
        ConsoleWarn ''reCAPTCHA verification failed. Likely a bot.'' [LogVal recaptchaData]],
       Inr \<lparr>statusCode = 403, body = Plain ''Forbidden. Bot-like activity detected.''\<rparr>)"
    using assms(18)
    by (intro verify_recaptcha_rejected[OF assms(13-17)]) (auto simp add: js_less_def)
  finally show ?thesis
    using assms(1) by (simp add: handler_def)
qed

section \<open>The claims\<close>

subsection \<open>C7: any method but POST\<close>

text \<open>
  Claim C7. For every inbound request whose method is not POST, the handler returns
  status exactly 405, attempts no body parsing, and makes no external calls. The answer
  is the same whatever the runtime, the environment and the body are: it does not
  depend on \<^verbatim>\<open>JSON.parse\<close>, whose exception on this body would otherwise have been
  caught and answered with 500, and the list of effects is empty.
\<close>

theorem non_post_is_405:
  assumes "httpMethod ev \<noteq> ''POST''"
  shows "handler rt env ev = (\<lparr>statusCode = 405, body = Plain ''Method Not Allowed''\<rparr>, [])"
  using assms by (simp add: handler_def)

text \<open>A GET request carrying the body of the scenario.\<close>

theorem non_post_is_405_witness:
  "handler (node_runtime verified_0_9 generated) scenario_env
     \<lparr>httpMethod = ''GET'', body = scenario_body\<rparr> =
   (\<lparr>statusCode = 405, body = Plain ''Method Not Allowed''\<rparr>, [])"
  by (rule non_post_is_405) simp

subsection \<open>C8: a field that is the empty string\<close>

text \<open>
  Claim C8. For every POST request whose JSON body has \<^verbatim>\<open>inputText\<close>, \<^verbatim>\<open>style\<close> and
  \<^verbatim>\<open>token\<close> as keys, one of them the empty string, the handler returns status 400 and
  makes no external calls, whether or not the secrets are set.
\<close>

theorem empty_field_is_400:
  assumes "httpMethod ev = ''POST''"
    and "JSON_parse rt (event.body ev) = Inr (JObj kvs)"
    and "map_of kvs ''inputText'' = Some inputText"
    and "map_of kvs ''style'' = Some style"
    and "map_of kvs ''token'' = Some token"
    and "inputText = JStr [] \<or> style = JStr [] \<or> token = JStr []"
  shows "handler rt env ev =
           (\<lparr>statusCode = 400, body = Plain ''Missing inputText, style, or token''\<rparr>, [])"
proof -
  have "handler_try rt env ev =
      ([], Inr \<lparr>statusCode = 400, body = Plain ''Missing inputText, style, or token''\<rparr>)"
    using assms(3-6) by (intro handler_try_falsy[OF assms(2)]) auto
  then show ?thesis
    using assms(1) by (simp add: handler_def)
qed

text \<open>The scenario with an empty style.\<close>

theorem empty_field_is_400_witness:
  "handler (node_runtime verified_0_9 generated) scenario_env (post empty_style_body) =
     (\<lparr>statusCode = 400, body = Plain ''Missing inputText, style, or token''\<rparr>, [])"
  by (rule empty_field_is_400[where
        kvs = "[(''inputText'', JStr ''Hello world''), (''style'', JStr []),
                (''token'', JStr ''abc'')]"
        and inputText = "JStr ''Hello world''" and style = "JStr []"
        and token = "JStr ''abc''"])
     (simp_all add: fixture_defs)

subsection \<open>C2: a body that does not parse, or lacks a field\<close>

text \<open>
  Claim C2, amended. For every POST request: when the body is malformed JSON, the
  exception of \<^verbatim>\<open>JSON.parse\<close> reaches the \<^verbatim>\<open>catch\<close> and the handler returns status 500
  with the message of the exception, not 400; the same happens for the body \<^verbatim>\<open>null\<close>,
  whose destructuring throws. When the body is any other JSON value and \<^verbatim>\<open>inputText\<close>,
  \<^verbatim>\<open>style\<close> or \<^verbatim>\<open>token\<close> is missing, the handler returns status 400. In all three cases
  nothing is fetched: the effects are at most the log line of the \<^verbatim>\<open>catch\<close>.
\<close>

theorem bad_payload_makes_no_calls:
  assumes "httpMethod ev = ''POST''"
  shows "(JSON_parse rt (event.body ev) = Inl e \<longrightarrow>
            handler rt env ev =
              (\<lparr>statusCode = 500,
                body = Stringify (JObj [(''error'', JStr (error_message rt e))])\<rparr>,
               [ConsoleError ''Serverless function error:'' [LogExn e]]))
       \<and> (JSON_parse rt (event.body ev) = Inr JNull \<longrightarrow>
            handler rt env ev =
              (\<lparr>statusCode = 500,
                body = Stringify (JObj [(''error'',
                  JStr (error_message rt (NullishAccess JNull ''inputText'')))])\<rparr>,
               [ConsoleError ''Serverless function error:''
                  [LogExn (NullishAccess JNull ''inputText'')]]))
       \<and> (JSON_parse rt (event.body ev) = Inr parsed \<and> \<not> nullish parsed
           \<and> (get_prop parsed ''inputText'' = Inr Undefined
              \<or> get_prop parsed ''style'' = Inr Undefined
              \<or> get_prop parsed ''token'' = Inr Undefined) \<longrightarrow>
            handler rt env ev =
              (\<lparr>statusCode = 400, body = Plain ''Missing inputText, style, or token''\<rparr>, []))"
proof (intro conjI impI)
  assume "JSON_parse rt (event.body ev) = Inl e"
  then show "handler rt env ev =
      (\<lparr>statusCode = 500, body = Stringify (JObj [(''error'', JStr (error_message rt e))])\<rparr>,
       [ConsoleError ''Serverless function error:'' [LogExn e]])"
    using assms by (simp add: handler_def handler_try_parse_error)
next
  assume "JSON_parse rt (event.body ev) = Inr JNull"
  then show "handler rt env ev =
      (\<lparr>statusCode = 500,
        body = Stringify (JObj [(''error'',
          JStr (error_message rt (NullishAccess JNull ''inputText'')))])\<rparr>,
       [ConsoleError ''Serverless function error:''
          [LogExn (NullishAccess JNull ''inputText'')]])"
    using assms by (simp add: handler_def handler_try_nullish)
next
  assume a: "JSON_parse rt (event.body ev) = Inr parsed \<and> \<not> nullish parsed
           \<and> (get_prop parsed ''inputText'' = Inr Undefined
              \<or> get_prop parsed ''style'' = Inr Undefined
              \<or> get_prop parsed ''token'' = Inr Undefined)"
  then obtain a b c where g: "get_prop parsed ''inputText'' = Inr a"
      "get_prop parsed ''style'' = Inr b" "get_prop parsed ''token'' = Inr c"
    using get_prop_total[of parsed] by blast
  with a have "\<not> truthy a \<or> \<not> truthy b \<or> \<not> truthy c"
    by auto
  with a g have "handler_try rt env ev =
      ([], Inr \<lparr>statusCode = 400, body = Plain ''Missing inputText, style, or token''\<rparr>)"
    by (intro handler_try_falsy) auto
  then show "handler rt env ev =
      (\<lparr>statusCode = 400, body = Plain ''Missing inputText, style, or token''\<rparr>, [])"
    using assms by (simp add: handler_def)
qed

text \<open>
  The claim as it was stated fails on a body cut short after its first field: the
  handler answers 500.
\<close>

theorem malformed_json_counterexample:
  "JSON_parse (node_runtime verified_0_9 generated) (event.body (post truncated_body)) =
     Inl (Thrown ''Unexpected end of JSON input'')
   \<and> handler (node_runtime verified_0_9 generated) scenario_env (post truncated_body) =
     (\<lparr>statusCode = 500,
       body = Stringify (JObj [(''error'', JStr ''Unexpected end of JSON input'')])\<rparr>,
      [ConsoleError ''Serverless function error:''
         [LogExn (Thrown ''Unexpected end of JSON input'')]])"
  by (simp add: handler_unfold fixture_defs)

text \<open>The amended claim on the body cut short, and on the scenario without its token.\<close>

theorem bad_payload_makes_no_calls_witness:
  "handler (node_runtime verified_0_9 generated) scenario_env (post truncated_body) =
     (\<lparr>statusCode = 500,
       body = Stringify (JObj [(''error'', JStr ''Unexpected end of JSON input'')])\<rparr>,
      [ConsoleError ''Serverless function error:''
         [LogExn (Thrown ''Unexpected end of JSON input'')]])
   \<and> handler (node_runtime verified_0_9 generated) scenario_env (post no_token_body) =
     (\<lparr>statusCode = 400, body = Plain ''Missing inputText, style, or token''\<rparr>, [])"
proof -
  let ?rt = "node_runtime verified_0_9 generated"
  let ?parsed = "JObj [(''inputText'', JStr ''Hello world''), (''style'', JStr ''pirate'')]"
  have p: "httpMethod (post truncated_body) = ''POST''"
      "httpMethod (post no_token_body) = ''POST''"
    by (simp_all add: post_def)
  have 1: "JSON_parse ?rt (event.body (post truncated_body)) =
      Inl (Thrown ''Unexpected end of JSON input'')"
    by (simp add: fixture_defs)
  have 2: "JSON_parse ?rt (event.body (post no_token_body)) = Inr ?parsed
      \<and> \<not> nullish ?parsed
      \<and> (get_prop ?parsed ''inputText'' = Inr Undefined
         \<or> get_prop ?parsed ''style'' = Inr Undefined
         \<or> get_prop ?parsed ''token'' = Inr Undefined)"
    by (simp add: fixture_defs)
  from bad_payload_makes_no_calls[OF p(1),
      of ?rt "Thrown ''Unexpected end of JSON input''" scenario_env] 1
    bad_payload_makes_no_calls[OF p(2), of ?rt _ scenario_env ?parsed] 2
  show ?thesis
    by (simp add: error_message_def)
qed

subsection \<open>C3: a secret that is not set\<close>

text \<open>
  Claim C3, amended. If either secret is absent from the environment, the handler makes
  no external call, whatever the request, and it answers by the first of its tests that
  applies, the secrets being the third: a request that is not a POST gets 405; a POST
  whose body is malformed JSON, or \<^verbatim>\<open>null\<close>, gets 500 from the \<^verbatim>\<open>catch\<close>, with the message
  of the exception; a POST in which \<^verbatim>\<open>inputText\<close>, \<^verbatim>\<open>style\<close> or \<^verbatim>\<open>token\<close> is missing or
  falsy gets 400; and a POST whose body has the three of them, none falsy, gets status
  500 with the message of the configuration error.
\<close>

theorem missing_secret_makes_no_calls:
  assumes "GEMINI_API_KEY env = None \<or> RECAPTCHA_SECRET_KEY env = None"
  shows "fetch_urls (snd (handler rt env ev)) = []
       \<and> (httpMethod ev \<noteq> ''POST'' \<longrightarrow>
            handler rt env ev =
              (\<lparr>statusCode = 405, body = Plain ''Method Not Allowed''\<rparr>, []))
       \<and> (httpMethod ev = ''POST'' \<and> JSON_parse rt (event.body ev) = Inl e \<longrightarrow>
            handler rt env ev =
              (\<lparr>statusCode = 500,
                body = Stringify (JObj [(''error'', JStr (error_message rt e))])\<rparr>,
               [ConsoleError ''Serverless function error:'' [LogExn e]]))
       \<and> (httpMethod ev = ''POST'' \<and> JSON_parse rt (event.body ev) = Inr parsed
           \<and> nullish parsed \<longrightarrow>
            handler rt env ev =
              (\<lparr>statusCode = 500,
                body = Stringify (JObj [(''error'',
                  JStr (error_message rt (NullishAccess parsed ''inputText'')))])\<rparr>,
               [ConsoleError ''Serverless function error:''
                  [LogExn (NullishAccess parsed ''inputText'')]]))
       \<and> (httpMethod ev = ''POST'' \<and> JSON_parse rt (event.body ev) = Inr parsed
           \<and> get_prop parsed ''inputText'' = Inr inputText
           \<and> get_prop parsed ''style'' = Inr style
           \<and> get_prop parsed ''token'' = Inr token
           \<and> (js_not inputText \<or> js_not style \<or> js_not token) \<longrightarrow>
            handler rt env ev =
              (\<lparr>statusCode = 400, body = Plain ''Missing inputText, style, or token''\<rparr>, []))
       \<and> (httpMethod ev = ''POST'' \<and> JSON_parse rt (event.body ev) = Inr parsed
           \<and> get_prop parsed ''inputText'' = Inr inputText \<and> truthy inputText
           \<and> get_prop parsed ''style'' = Inr style \<and> truthy style
           \<and> get_prop parsed ''token'' = Inr token \<and> truthy token \<longrightarrow>
            handler rt env ev =
              (\<lparr>statusCode = 500,
                body = Plain ''Server configuration error. Please contact the administrator.''\<rparr>,
               [ConsoleError ''Server configuration error: Missing API_KEY or RECAPTCHA_SECRET''
                  []]))"
proof -
  have no: "env_not (API_KEY env) \<or> env_not (RECAPTCHA_SECRET env)"
    using assms by (auto simp add: API_KEY_def RECAPTCHA_SECRET_def)
  have quiet: "fetch_urls (snd (handler rt env ev)) = []"
    using handler_try_no_secret_quiet[OF no, of rt ev]
    by (cases "handler_try rt env ev")
      (auto simp add: handler_def fetch_urls_append split: sum.splits)
  have other: "handler rt env ev =
      (\<lparr>statusCode = 405, body = Plain ''Method Not Allowed''\<rparr>, [])"
    if "httpMethod ev \<noteq> ''POST''"
    using that by (simp add: handler_def)
  have thrown: "handler rt env ev =
      (\<lparr>statusCode = 500, body = Stringify (JObj [(''error'', JStr (error_message rt e))])\<rparr>,
       [ConsoleError ''Serverless function error:'' [LogExn e]])"
    if "httpMethod ev = ''POST''" "JSON_parse rt (event.body ev) = Inl e"
    using that by (simp add: handler_def handler_try_parse_error)
  have null: "handler rt env ev =
      (\<lparr>statusCode = 500,
        body = Stringify (JObj [(''error'',
          JStr (error_message rt (NullishAccess parsed ''inputText'')))])\<rparr>,
       [ConsoleError ''Serverless function error:''
          [LogExn (NullishAccess parsed ''inputText'')]])"
    if "httpMethod ev = ''POST''" "JSON_parse rt (event.body ev) = Inr parsed" "nullish parsed"
    using that by (simp add: handler_def handler_try_nullish)
  have missing: "handler rt env ev =
      (\<lparr>statusCode = 400, body = Plain ''Missing inputText, style, or token''\<rparr>, [])"
    if "httpMethod ev = ''POST''" "JSON_parse rt (event.body ev) = Inr parsed"
      "get_prop parsed ''inputText'' = Inr inputText"
      "get_prop parsed ''style'' = Inr style"
      "get_prop parsed ''token'' = Inr token"
      "js_not inputText \<or> js_not style \<or> js_not token"
  proof -
    have "handler_try rt env ev =
        ([], Inr \<lparr>statusCode = 400, body = Plain ''Missing inputText, style, or token''\<rparr>)"
      using that(6) by (intro handler_try_falsy[OF that(2-5)]) auto
    then show ?thesis
      using that(1) by (simp add: handler_def)
  qed
  have config: "handler rt env ev =
      (\<lparr>statusCode = 500,
        body = Plain ''Server configuration error. Please contact the administrator.''\<rparr>,
       [ConsoleError ''Server configuration error: Missing API_KEY or RECAPTCHA_SECRET'' []])"
    if "httpMethod ev = ''POST''" "JSON_parse rt (event.body ev) = Inr parsed"
      "get_prop parsed ''inputText'' = Inr inputText" "truthy inputText"
      "get_prop parsed ''style'' = Inr style" "truthy style"
      "get_prop parsed ''token'' = Inr token" "truthy token"
    using handler_try_no_secret[OF that(2,3,5,7,4,6,8) no] that(1)
    by (simp add: handler_def)
  from quiet other thrown null missing config show ?thesis
    by blast
qed

text \<open>
  The claim as it was stated fails, with no secret set, on a GET request, answered with
  405, and on the scenario without its token, answered with 400.
\<close>

theorem missing_secret_counterexample:
  "handler (node_runtime verified_0_9 generated) no_secrets
      \<lparr>httpMethod = ''GET'', body = scenario_body\<rparr> =
     (\<lparr>statusCode = 405, body = Plain ''Method Not Allowed''\<rparr>, [])
   \<and> handler (node_runtime verified_0_9 generated) no_secrets (post no_token_body) =
     (\<lparr>statusCode = 400, body = Plain ''Missing inputText, style, or token''\<rparr>, [])"
  by (simp add: handler_unfold fixture_defs)

text \<open>
  With no secret set: the scenario, the scenario without its token, and a body cut
  short.
\<close>

theorem missing_secret_makes_no_calls_witness:
  "fetch_urls (snd (handler (node_runtime verified_0_9 generated) no_secrets
      (post scenario_body))) = []
   \<and> handler (node_runtime verified_0_9 generated) no_secrets (post scenario_body) =
       (\<lparr>statusCode = 500,
         body = Plain ''Server configuration error. Please contact the administrator.''\<rparr>,
        [ConsoleError ''Server configuration error: Missing API_KEY or RECAPTCHA_SECRET'' []])
   \<and> handler (node_runtime verified_0_9 generated) no_secrets (post no_token_body) =
       (\<lparr>statusCode = 400, body = Plain ''Missing inputText, style, or token''\<rparr>, [])
   \<and> handler (node_runtime verified_0_9 generated) no_secrets (post truncated_body) =
       (\<lparr>statusCode = 500,
         body = Stringify (JObj [(''error'', JStr ''Unexpected end of JSON input'')])\<rparr>,
        [ConsoleError ''Serverless function error:''
           [LogExn (Thrown ''Unexpected end of JSON input'')]])"
proof -
  let ?rt = "node_runtime verified_0_9 generated"
  have no: "GEMINI_API_KEY no_secrets = None \<or> RECAPTCHA_SECRET_KEY no_secrets = None"
    by (simp add: no_secrets_def)
  from missing_secret_makes_no_calls[OF no,
      of ?rt "post scenario_body" _ scenario_payload
         "JStr ''Hello world''" "JStr ''pirate''" "JStr ''abc''"]
  have 1: "fetch_urls (snd (handler ?rt no_secrets (post scenario_body))) = []
     \<and> handler ?rt no_secrets (post scenario_body) =
       (\<lparr>statusCode = 500,
         body = Plain ''Server configuration error. Please contact the administrator.''\<rparr>,
        [ConsoleError ''Server configuration error: Missing API_KEY or RECAPTCHA_SECRET'' []])"
    by (simp add: fixture_defs)
  from missing_secret_makes_no_calls[OF no,
      of ?rt "post no_token_body" _
         "JObj [(''inputText'', JStr ''Hello world''), (''style'', JStr ''pirate'')]"
         "JStr ''Hello world''" "JStr ''pirate''" Undefined]
  have 2: "handler ?rt no_secrets (post no_token_body) =
       (\<lparr>statusCode = 400, body = Plain ''Missing inputText, style, or token''\<rparr>, [])"
    by (simp add: fixture_defs)
  from missing_secret_makes_no_calls[OF no,
      of ?rt "post truncated_body" "Thrown ''Unexpected end of JSON input''"]
  have 3: "handler ?rt no_secrets (post truncated_body) =
       (\<lparr>statusCode = 500,
         body = Stringify (JObj [(''error'', JStr ''Unexpected end of JSON input'')])\<rparr>,
        [ConsoleError ''Serverless function error:''
           [LogExn (Thrown ''Unexpected end of JSON input'')]])"
    by (simp add: fixture_defs error_message_def)
  from 1 2 3 show ?thesis
    by simp
qed

subsection \<open>C4: the text of the first candidate is returned\<close>

text \<open>
  Claim C4, amended. For every POST request whose body has \<^verbatim>\<open>inputText\<close>, \<^verbatim>\<open>style\<close> and
  \<^verbatim>\<open>token\<close>, none of them falsy (so none the empty string) and \<^verbatim>\<open>style\<close> and \<^verbatim>\<open>token\<close>
  values that a template literal converts to a string (as every string is), with both
  secrets set and not empty: if the verification answers \<^verbatim>\<open>success\<close> true with a score
  above 0.5, and the generation service answers with an OK status and a JSON body in
  which \<^verbatim>\<open>candidates[0].content.parts[0].text\<close>, the text of the first part of the first
  candidate, is a string that is not empty, then the handler returns status 200 with the
  body \<^verbatim>\<open>JSON.stringify({reformulatedText: text})\<close>, an object of that one field. Besides
  the two calls it has no effect.
\<close>

theorem success_returns_text:
  assumes "httpMethod ev = ''POST''"
    and "JSON_parse rt (event.body ev) = Inr parsed"
    and "get_prop parsed ''inputText'' = Inr inputText" "truthy inputText"
    and "get_prop parsed ''style'' = Inr style" "truthy style"
    and "get_prop parsed ''token'' = Inr token" "truthy token"
    and "GEMINI_API_KEY env = Some key" "key \<noteq> []"
    and "RECAPTCHA_SECRET_KEY env = Some secret" "secret \<noteq> []"
    and "to_string rt token = Inr token_text"
    and "fetch rt RECAPTCHA_VERIFY_URL (recaptcha_request env token_text) = Inr vres"
    and "resp_json vres = Inr recaptchaData"
    and "get_prop recaptchaData ''success'' = Inr (JBool True)"
    and "get_prop recaptchaData ''score'' = Inr (JNum (Fin score))" "1 / 2 < score"
    and "to_string rt style = Inr style_text"
    and "fetch rt (API_URL env) (generation_request inputText style_text) = Inr gres"
    and "ok gres" "resp_json gres = Inr result"
    and "get_prop result ''candidates'' = Inr candidates"
    and "get_index0 candidates = Inr candidate"
    and "get_prop candidate ''content'' = Inr content"
    and "get_prop content ''parts'' = Inr parts"
    and "get_index0 parts = Inr part"
    and "get_prop part ''text'' = Inr (JStr txt)" "txt \<noteq> []"
  shows "handler rt env ev =
           (\<lparr>statusCode = 200, body = Stringify (JObj [(''reformulatedText'', JStr txt)])\<rparr>,
            [Fetch RECAPTCHA_VERIFY_URL (recaptcha_request env token_text),
             Fetch (API_URL env) (generation_request inputText style_text)])"
proof -
  have "handler_try rt env ev = verify_recaptcha rt env inputText style token"
    by (rule handler_reaches_verification[OF assms(1-12)])
  also have "\<dots> = (case call_generation rt env inputText style of
        (tr, r) \<Rightarrow> (Fetch RECAPTCHA_VERIFY_URL (recaptcha_request env token_text) # tr, r))"
    using assms(18)
    by (intro verify_recaptcha_accepted[OF assms(13-16) _ assms(17)])
      (simp_all add: js_less_def)
  also have "call_generation rt env inputText style =
      (case extract_result result of
         (tr, r) \<Rightarrow> (Fetch (API_URL env) (generation_request inputText style_text) # tr, r))"
    by (rule call_generation_ok[OF assms(19-22)])
  also have "extract_result result =
      ([], Inr \<lparr>statusCode = 200, body = Stringify (JObj [(''reformulatedText'', JStr txt)])\<rparr>)"
    using assms(29) by (intro extract_result_text[OF assms(23-28)]) simp
  finally show ?thesis
    using assms(1) by (simp add: handler_def)
qed

text \<open>
  The claim as it was stated asks for fields that are present and for some candidate
  with some part that has a text. It fails on the scenario with a style that is present
  and empty, answered with 400; on a generation answer whose second candidate has the
  text and whose first has none, answered with 500; and on the scenario with a token
  that is an object with a property \<^verbatim>\<open>toString\<close>, whose interpolation throws before
  anything is fetched, answered with 500.
\<close>

theorem success_counterexample:
  "handler (node_runtime verified_0_9 generated) scenario_env (post empty_style_body) =
     (\<lparr>statusCode = 400, body = Plain ''Missing inputText, style, or token''\<rparr>, [])
   \<and> handler (node_runtime verified_0_9 generated_second) scenario_env (post scenario_body) =
     (\<lparr>statusCode = 500, body = Plain ''Invalid response from Google AI.''\<rparr>,
      [Fetch RECAPTCHA_VERIFY_URL (recaptcha_request scenario_env ''abc''),
       Fetch (API_URL scenario_env) (generation_request (JStr ''Hello world'') ''pirate''),
       ConsoleError ''Invalid API response:''
         [LogVal (JObj [(''candidates'', JArr [JObj [], ahoy])])]])
   \<and> handler (node_runtime verified_0_9 generated) scenario_env (post object_token_body) =
     (\<lparr>statusCode = 500,
       body = Stringify (JObj [(''error'',
         JStr ''Cannot convert object to primitive value'')])\<rparr>,
      [ConsoleError ''Serverless function error:''
         [LogExn (NoPrimitive (JObj [(''toString'', JNum (Fin 1))]))]])"
  by (simp add: handler_unfold fixture_defs)

text \<open>The scenario of the specification.\<close>

theorem success_returns_text_witness:
  "handler (node_runtime verified_0_9 generated) scenario_env (post scenario_body) =
   (\<lparr>statusCode = 200,
     body = Stringify (JObj [(''reformulatedText'', JStr ''Ahoy, world!'')])\<rparr>,
    [Fetch RECAPTCHA_VERIFY_URL (recaptcha_request scenario_env ''abc''),
     Fetch (API_URL scenario_env) (generation_request (JStr ''Hello world'') ''pirate'')])"
  by (rule success_returns_text[where
        parsed = scenario_payload
        and style = "JStr ''pirate''" and token = "JStr ''abc''"
        and key = "''AIza-key''" and secret = "''6L-secret''"
        and score = "8106479329266893 / 9007199254740992"
        and recaptchaData = "JObj [(''success'', JBool True),
              (''score'', JNum (Fin (8106479329266893 / 9007199254740992)))]"
        and vres = verified_0_9 and gres = generated
        and result = "JObj [(''candidates'', JArr [ahoy])]"
        and candidates = "JArr [ahoy]"
        and candidate = ahoy
        and content = "JObj [(''parts'', JArr [JObj [(''text'', JStr ''Ahoy, world!'')]])]"
        and parts = "JArr [JObj [(''text'', JStr ''Ahoy, world!'')]]"
        and part = "JObj [(''text'', JStr ''Ahoy, world!'')]"])
     (simp_all add: fixture_defs)

subsection \<open>C5: an error status of the generation service\<close>

text \<open>
  Claim C5, amended. For every request that reaches the generation service (a POST with
  its three fields, both secrets set, the token and the style interpolated, the
  verification accepted) and every answer of the service with a status that is not OK:
  if the body of the answer can be read, the handler returns the status of the service
  and the body \<^verbatim>\<open>Google AI Error: \<close> followed by the status text of the service, and the
  raw body goes to the log and nowhere else; if reading the body throws, which the
  handler awaits for its log before it returns, the \<^verbatim>\<open>catch\<close> answers with status 500
  and the message of that exception, not with the status of the service.
\<close>

theorem upstream_error_is_relayed:
  assumes "httpMethod ev = ''POST''"
    and "JSON_parse rt (event.body ev) = Inr parsed"
    and "get_prop parsed ''inputText'' = Inr inputText" "truthy inputText"
    and "get_prop parsed ''style'' = Inr style" "truthy style"
    and "get_prop parsed ''token'' = Inr token" "truthy token"
    and "GEMINI_API_KEY env = Some key" "key \<noteq> []"
    and "RECAPTCHA_SECRET_KEY env = Some secret" "secret \<noteq> []"
    and "to_string rt token = Inr token_text"
    and "fetch rt RECAPTCHA_VERIFY_URL (recaptcha_request env token_text) = Inr vres"
    and "resp_json vres = Inr recaptchaData"
    and "get_prop recaptchaData ''success'' = Inr success" "truthy success"
    and "get_prop recaptchaData ''score'' = Inr score"
    and "js_less rt score (Fin (1 / 2)) = Inr False"
    and "to_string rt style = Inr style_text"
    and "fetch rt (API_URL env) (generation_request inputText style_text) = Inr gres"
    and "\<not> ok gres"
  shows "(resp_text gres = Inr errorBody \<longrightarrow>
            handler rt env ev =
              (\<lparr>statusCode = status gres,
                body = Plain (''Google AI Error: '' @ statusText gres)\<rparr>,
               [Fetch RECAPTCHA_VERIFY_URL (recaptcha_request env token_text),
                Fetch (API_URL env) (generation_request inputText style_text),
                ConsoleError ''Google AI API Error:'' [LogStr errorBody]]))
       \<and> (resp_text gres = Inl e \<longrightarrow>
            handler rt env ev =
              (\<lparr>statusCode = 500,
                body = Stringify (JObj [(''error'', JStr (error_message rt e))])\<rparr>,
               [Fetch RECAPTCHA_VERIFY_URL (recaptcha_request env token_text),
                Fetch (API_URL env) (generation_request inputText style_text),
                ConsoleError ''Serverless function error:'' [LogExn e]]))"
proof -
  have "handler_try rt env ev = verify_recaptcha rt env inputText style token"
    by (rule handler_reaches_verification[OF assms(1-12)])
  also have "\<dots> = (case call_generation rt env inputText style of
        (tr, r) \<Rightarrow> (Fetch RECAPTCHA_VERIFY_URL (recaptcha_request env token_text) # tr, r))"
    by (rule verify_recaptcha_accepted[OF assms(13-19)])
  finally have h: "handler_try rt env ev =
      (case call_generation rt env inputText style of
        (tr, r) \<Rightarrow> (Fetch RECAPTCHA_VERIFY_URL (recaptcha_request env token_text) # tr, r))" .
  show ?thesis
  proof (intro conjI impI)
    assume "resp_text gres = Inr errorBody"
    from call_generation_not_ok[OF assms(20-22) this] h assms(1)
    show "handler rt env ev =
        (\<lparr>statusCode = status gres, body = Plain (''Google AI Error: '' @ statusText gres)\<rparr>,
         [Fetch RECAPTCHA_VERIFY_URL (recaptcha_request env token_text),
          Fetch (API_URL env) (generation_request inputText style_text),
          ConsoleError ''Google AI API Error:'' [LogStr errorBody]])"
      by (simp add: handler_def)
  next
    assume "resp_text gres = Inl e"
    from call_generation_unreadable[OF assms(20-22) this] h assms(1)
    show "handler rt env ev =
        (\<lparr>statusCode = 500, body = Stringify (JObj [(''error'', JStr (error_message rt e))])\<rparr>,
         [Fetch RECAPTCHA_VERIFY_URL (recaptcha_request env token_text),
          Fetch (API_URL env) (generation_request inputText style_text),
          ConsoleError ''Serverless function error:'' [LogExn e]])"
      by (simp add: handler_def)
  qed
qed

text \<open>
  The claim as it was stated fails on the scenario with the generation service out of
  quota and the body of its answer breaking off while it is read: the handler answers
  500, not 429.
\<close>

theorem unreadable_error_body_counterexample:
  "\<not> ok quota_exceeded_cut \<and> status quota_exceeded_cut = 429
   \<and> handler (node_runtime verified_0_9 quota_exceeded_cut) scenario_env (post scenario_body) =
     (\<lparr>statusCode = 500, body = Stringify (JObj [(''error'', JStr ''terminated'')])\<rparr>,
      [Fetch RECAPTCHA_VERIFY_URL (recaptcha_request scenario_env ''abc''),
       Fetch (API_URL scenario_env) (generation_request (JStr ''Hello world'') ''pirate''),
       ConsoleError ''Serverless function error:'' [LogExn (Thrown ''terminated'')]])"
  by (simp add: handler_unfold fixture_defs)

text \<open>The scenario, with the generation service out of quota, its body read or not.\<close>

theorem upstream_error_is_relayed_witness:
  \<open>handler (node_runtime verified_0_9 quota_exceeded) scenario_env (post scenario_body) =
     (\<lparr>statusCode = 429, body = Plain ''Google AI Error: Too Many Requests''\<rparr>,
      [Fetch RECAPTCHA_VERIFY_URL (recaptcha_request scenario_env ''abc''),
       Fetch (API_URL scenario_env) (generation_request (JStr ''Hello world'') ''pirate''),
       ConsoleError ''Google AI API Error:''
         [LogStr ''{"error":{"code":429,"status":"RESOURCE_EXHAUSTED"}}'']])
   \<and> handler (node_runtime verified_0_9 quota_exceeded_cut) scenario_env (post scenario_body) =
     (\<lparr>statusCode = 500, body = Stringify (JObj [(''error'', JStr ''terminated'')])\<rparr>,
      [Fetch RECAPTCHA_VERIFY_URL (recaptcha_request scenario_env ''abc''),
       Fetch (API_URL scenario_env) (generation_request (JStr ''Hello world'') ''pirate''),
       ConsoleError ''Serverless function error:'' [LogExn (Thrown ''terminated'')]])\<close>
proof -
  have a: \<open>(resp_text quota_exceeded =
          Inr ''{"error":{"code":429,"status":"RESOURCE_EXHAUSTED"}}'' \<longrightarrow>
        handler (node_runtime verified_0_9 quota_exceeded) scenario_env (post scenario_body) =
          (\<lparr>statusCode = status quota_exceeded,
            body = Plain (''Google AI Error: '' @ statusText quota_exceeded)\<rparr>,
           [Fetch RECAPTCHA_VERIFY_URL (recaptcha_request scenario_env ''abc''),
            Fetch (API_URL scenario_env) (generation_request (JStr ''Hello world'') ''pirate''),
            ConsoleError ''Google AI API Error:''
              [LogStr ''{"error":{"code":429,"status":"RESOURCE_EXHAUSTED"}}'']]))
      \<and> (resp_text quota_exceeded = Inl (Thrown ''terminated'') \<longrightarrow>
        handler (node_runtime verified_0_9 quota_exceeded) scenario_env (post scenario_body) =
          (\<lparr>statusCode = 500,
            body = Stringify (JObj [(''error'',
              JStr (error_message (node_runtime verified_0_9 quota_exceeded)
                (Thrown ''terminated'')))])\<rparr>,
           [Fetch RECAPTCHA_VERIFY_URL (recaptcha_request scenario_env ''abc''),
            Fetch (API_URL scenario_env) (generation_request (JStr ''Hello world'') ''pirate''),
            ConsoleError ''Serverless function error:'' [LogExn (Thrown ''terminated'')]]))\<close>
    by (rule upstream_error_is_relayed[where
          parsed = scenario_payload and key = "''AIza-key''" and secret = "''6L-secret''"
          and style = "JStr ''pirate''" and token = "JStr ''abc''"
          and vres = verified_0_9
          and recaptchaData = "JObj [(''success'', JBool True),
                (''score'', JNum (Fin (8106479329266893 / 9007199254740992)))]"
          and success = "JBool True"
          and score = "JNum (Fin (8106479329266893 / 9007199254740992))"])
       (simp_all add: fixture_defs js_less_def)
  have b: \<open>(resp_text quota_exceeded_cut =
          Inr ''{"error":{"code":429,"status":"RESOURCE_EXHAUSTED"}}'' \<longrightarrow>
        handler (node_runtime verified_0_9 quota_exceeded_cut) scenario_env (post scenario_body) =
          (\<lparr>statusCode = status quota_exceeded_cut,
            body = Plain (''Google AI Error: '' @ statusText quota_exceeded_cut)\<rparr>,
           [Fetch RECAPTCHA_VERIFY_URL (recaptcha_request scenario_env ''abc''),
            Fetch (API_URL scenario_env) (generation_request (JStr ''Hello world'') ''pirate''),
            ConsoleError ''Google AI API Error:''
              [LogStr ''{"error":{"code":429,"status":"RESOURCE_EXHAUSTED"}}'']]))
      \<and> (resp_text quota_exceeded_cut = Inl (Thrown ''terminated'') \<longrightarrow>
        handler (node_runtime verified_0_9 quota_exceeded_cut) scenario_env (post scenario_body) =
          (\<lparr>statusCode = 500,
            body = Stringify (JObj [(''error'',
              JStr (error_message (node_runtime verified_0_9 quota_exceeded_cut)
                (Thrown ''terminated'')))])\<rparr>,
           [Fetch RECAPTCHA_VERIFY_URL (recaptcha_request scenario_env ''abc''),
            Fetch (API_URL scenario_env) (generation_request (JStr ''Hello world'') ''pirate''),
            ConsoleError ''Serverless function error:'' [LogExn (Thrown ''terminated'')]]))\<close>
    by (rule upstream_error_is_relayed[where
          parsed = scenario_payload and key = "''AIza-key''" and secret = "''6L-secret''"
          and style = "JStr ''pirate''" and token = "JStr ''abc''"
          and vres = verified_0_9
          and recaptchaData = "JObj [(''success'', JBool True),
                (''score'', JNum (Fin (8106479329266893 / 9007199254740992)))]"
          and success = "JBool True"
          and score = "JNum (Fin (8106479329266893 / 9007199254740992))"])
       (simp_all add: fixture_defs js_less_def)
  from a b show ?thesis
    by (simp add: quota_exceeded_def quota_exceeded_cut_def reply_def error_message_def)
qed

subsection \<open>C10: a text that is the empty string\<close>

text \<open>
  Claim C10. For every answer of the generation service, to a request that reached it
  (a POST with its three fields, both secrets set, the token and the style
  interpolated, the verification accepted), with an OK status and a JSON body in which
  the text of the first part of the first candidate is the empty string, the handler
  returns status 500 with the body \<^verbatim>\<open>Invalid response from Google AI.\<close>, and logs the
  answer; it does not return 200 with an empty text.
\<close>

theorem empty_text_is_invalid:
  assumes "httpMethod ev = ''POST''"
    and "JSON_parse rt (event.body ev) = Inr parsed"
    and "get_prop parsed ''inputText'' = Inr inputText" "truthy inputText"
    and "get_prop parsed ''style'' = Inr style" "truthy style"
    and "get_prop parsed ''token'' = Inr token" "truthy token"
    and "GEMINI_API_KEY env = Some key" "key \<noteq> []"
    and "RECAPTCHA_SECRET_KEY env = Some secret" "secret \<noteq> []"
    and "to_string rt token = Inr token_text"
    and "fetch rt RECAPTCHA_VERIFY_URL (recaptcha_request env token_text) = Inr vres"
    and "resp_json vres = Inr recaptchaData"
    and "get_prop recaptchaData ''success'' = Inr success" "truthy success"
    and "get_prop recaptchaData ''score'' = Inr score"
    and "js_less rt score (Fin (1 / 2)) = Inr False"
    and "to_string rt style = Inr style_text"
    and "fetch rt (API_URL env) (generation_request inputText style_text) = Inr gres"
    and "ok gres" "resp_json gres = Inr result"
    and "get_prop result ''candidates'' = Inr candidates"
    and "get_index0 candidates = Inr candidate"
    and "get_prop candidate ''content'' = Inr content"
    and "get_prop content ''parts'' = Inr parts"
    and "get_index0 parts = Inr part"
    and "get_prop part ''text'' = Inr (JStr [])"
  shows "handler rt env ev =
           (\<lparr>statusCode = 500, body = Plain ''Invalid response from Google AI.''\<rparr>,
            [Fetch RECAPTCHA_VERIFY_URL (recaptcha_request env token_text),
             Fetch (API_URL env) (generation_request inputText style_text),
             ConsoleError ''Invalid API response:'' [LogVal result]])"
proof -
  have "handler_try rt env ev = verify_recaptcha rt env inputText style token"
    by (rule handler_reaches_verification[OF assms(1-12)])
  also have "\<dots> = (case call_generation rt env inputText style of
        (tr, r) \<Rightarrow> (Fetch RECAPTCHA_VERIFY_URL (recaptcha_request env token_text) # tr, r))"
    by (rule verify_recaptcha_accepted[OF assms(13-19)])
  also have "call_generation rt env inputText style =
      (case extract_result result of
         (tr, r) \<Rightarrow> (Fetch (API_URL env) (generation_request inputText style_text) # tr, r))"
    by (rule call_generation_ok[OF assms(20-23)])
  also have "extract_result result =
      ([ConsoleError ''Invalid API response:'' [LogVal result]],
       Inr \<lparr>statusCode = 500, body = Plain ''Invalid response from Google AI.''\<rparr>)"
    by (rule extract_result_falsy_text[OF assms(24-29)]) simp
  finally show ?thesis
    using assms(1) by (simp add: handler_def)
qed

text \<open>The scenario, with a generation answer whose text is empty.\<close>

theorem empty_text_is_invalid_witness:
  "handler (node_runtime verified_0_9 generated_empty_text) scenario_env (post scenario_body) =
     (\<lparr>statusCode = 500, body = Plain ''Invalid response from Google AI.''\<rparr>,
      [Fetch RECAPTCHA_VERIFY_URL (recaptcha_request scenario_env ''abc''),
       Fetch (API_URL scenario_env) (generation_request (JStr ''Hello world'') ''pirate''),
       ConsoleError ''Invalid API response:''
         [LogVal (JObj [(''candidates'',
            JArr [JObj [(''content'',
              JObj [(''parts'', JArr [JObj [(''text'', JStr [])]])])]])])]])"
  by (rule empty_text_is_invalid[where
        parsed = scenario_payload and key = "''AIza-key''" and secret = "''6L-secret''"
        and style = "JStr ''pirate''" and token = "JStr ''abc''"
        and vres = verified_0_9
        and recaptchaData = "JObj [(''success'', JBool True),
              (''score'', JNum (Fin (8106479329266893 / 9007199254740992)))]"
        and success = "JBool True"
        and score = "JNum (Fin (8106479329266893 / 9007199254740992))"
        and gres = generated_empty_text
        and candidates =
          "JArr [JObj [(''content'', JObj [(''parts'', JArr [JObj [(''text'', JStr [])]])])]]"
        and candidate = "JObj [(''content'', JObj [(''parts'', JArr [JObj [(''text'', JStr [])]])])]"
        and content = "JObj [(''parts'', JArr [JObj [(''text'', JStr [])]])]"
        and parts = "JArr [JObj [(''text'', JStr [])]]"
        and part = "JObj [(''text'', JStr [])]"])
     (simp_all add: fixture_defs js_less_def)

subsection \<open>C9: a verification without a score\<close>

text \<open>
  Claim C9, amended. For every request that reaches the verification (a POST with its
  three fields, both secrets set, the token interpolated) and every answer of the
  verification with \<^verbatim>\<open>success\<close> true and no \<^verbatim>\<open>score\<close> at all, the handler accepts the
  verification: it logs no warning and its answer is not the rejection, status 403 with
  \<^verbatim>\<open>Forbidden. Bot-like activity detected.\<close> It goes on to the prompt. When the style is
  a value that a template literal converts to a string (as every string is), it calls
  the generation service, after the verification and with the request built from the
  input text and the style; its status is then 403 only when the generation service
  answered with a status 403 that is not OK, and the handler relays it with the body
  \<^verbatim>\<open>Google AI Error: \<close> and the status text. When the conversion of the style throws,
  the \<^verbatim>\<open>catch\<close> answers with status 500 and the generation service is not called.
\<close>

theorem missing_score_is_accepted:
  assumes "httpMethod ev = ''POST''"
    and "JSON_parse rt (event.body ev) = Inr parsed"
    and "get_prop parsed ''inputText'' = Inr inputText" "truthy inputText"
    and "get_prop parsed ''style'' = Inr style" "truthy style"
    and "get_prop parsed ''token'' = Inr token" "truthy token"
    and "GEMINI_API_KEY env = Some key" "key \<noteq> []"
    and "RECAPTCHA_SECRET_KEY env = Some secret" "secret \<noteq> []"
    and "to_string rt token = Inr token_text"
    and "fetch rt RECAPTCHA_VERIFY_URL (recaptcha_request env token_text) = Inr vres"
    and "resp_json vres = Inr (JObj kvs)"
    and "map_of kvs ''success'' = Some (JBool True)"
    and "map_of kvs ''score'' = None"
  shows "(\<forall>w args. ConsoleWarn w args \<notin> set (snd (handler rt env ev)))
       \<and> fst (handler rt env ev) \<noteq>
            \<lparr>statusCode = 403, body = Plain ''Forbidden. Bot-like activity detected.''\<rparr>
       \<and> (to_string rt style = Inr style_text \<longrightarrow>
            fetch_urls (snd (handler rt env ev)) = [RECAPTCHA_VERIFY_URL, API_URL env]
            \<and> Fetch (API_URL env) (generation_request inputText style_text)
                 \<in> set (snd (handler rt env ev))
            \<and> (statusCode (fst (handler rt env ev)) = 403 \<longrightarrow>
                 (\<exists>g. fetch rt (API_URL env) (generation_request inputText style_text) = Inr g
                    \<and> \<not> ok g \<and> status g = 403
                    \<and> fst (handler rt env ev) =
                         \<lparr>statusCode = 403,
                          body = Plain (''Google AI Error: '' @ statusText g)\<rparr>)))
       \<and> (to_string rt style = Inl e \<longrightarrow>
            handler rt env ev =
              (\<lparr>statusCode = 500,
                body = Stringify (JObj [(''error'', JStr (error_message rt e))])\<rparr>,
               [Fetch RECAPTCHA_VERIFY_URL (recaptcha_request env token_text),
                ConsoleError ''Serverless function error:'' [LogExn e]]))"
proof -
  have "handler_try rt env ev = verify_recaptcha rt env inputText style token"
    by (rule handler_reaches_verification[OF assms(1-12)])
  also have "\<dots> = (case call_generation rt env inputText style of
        (tr, r) \<Rightarrow> (Fetch RECAPTCHA_VERIFY_URL (recaptcha_request env token_text) # tr, r))"
    using assms(16,17)
    by (intro verify_recaptcha_accepted[OF assms(13-15),
          where s = "JBool True" and sc = Undefined])
      (simp_all add: js_less_def)
  finally have h: "handler_try rt env ev =
      (case call_generation rt env inputText style of
        (tr, r) \<Rightarrow> (Fetch RECAPTCHA_VERIFY_URL (recaptcha_request env token_text) # tr, r))" .
  show ?thesis
  proof (cases "to_string rt style")
    case (Inl e')
    from call_generation_no_style[OF this] h assms(1) Inl show ?thesis
      by (simp add: handler_def)
  next
    case (Inr st)
    obtain tr r where g: "call_generation rt env inputText style =
          (Fetch (API_URL env) (generation_request inputText st) # tr, r)"
        and quiet: "fetch_urls tr = []" "\<forall>w args. ConsoleWarn w args \<notin> set tr"
        and resp: "\<forall>resp. r = Inr resp \<longrightarrow>
             response.body resp \<noteq> Plain ''Forbidden. Bot-like activity detected.''
             \<and> (statusCode resp = 403 \<longrightarrow>
                  (\<exists>g. fetch rt (API_URL env) (generation_request inputText st) = Inr g
                     \<and> \<not> ok g \<and> status g = 403
                     \<and> resp = \<lparr>statusCode = 403,
                                body = Plain (''Google AI Error: '' @ statusText g)\<rparr>))"
      using call_generation_shape[OF Inr, of env inputText] by blast
    show ?thesis
    proof (cases r)
      case (Inl e')
      with h g quiet assms(1) Inr show ?thesis
        by (simp add: handler_def fetch_urls_append)
    next
      case r: (Inr resp')
      with resp have "response.body resp' \<noteq> Plain ''Forbidden. Bot-like activity detected.''"
        by blast
      then have "resp' \<noteq>
          \<lparr>statusCode = 403, body = Plain ''Forbidden. Bot-like activity detected.''\<rparr>"
        by auto
      with r h g quiet resp assms(1) Inr show ?thesis
        by (auto simp add: handler_def)
    qed
  qed
qed

text \<open>
  The claim as it was stated lets the handler never answer 403 and always call the
  generation service. With a verification answer that has no score, it fails on the
  scenario with a generation service that answers 403, which the handler relays, and on
  the scenario with a style that is an object with a property \<^verbatim>\<open>toString\<close>, where only
  the verification is fetched.
\<close>

theorem missing_score_counterexample:
  \<open>handler (node_runtime verified_no_score permission_denied) scenario_env
      (post scenario_body) =
     (\<lparr>statusCode = 403, body = Plain ''Google AI Error: Forbidden''\<rparr>,
      [Fetch RECAPTCHA_VERIFY_URL (recaptcha_request scenario_env ''abc''),
       Fetch (API_URL scenario_env) (generation_request (JStr ''Hello world'') ''pirate''),
       ConsoleError ''Google AI API Error:''
         [LogStr ''{"error":{"code":403,"status":"PERMISSION_DENIED"}}'']])
   \<and> handler (node_runtime verified_no_score generated) scenario_env
      (post object_style_body) =
     (\<lparr>statusCode = 500,
       body = Stringify (JObj [(''error'',
         JStr ''Cannot convert object to primitive value'')])\<rparr>,
      [Fetch RECAPTCHA_VERIFY_URL (recaptcha_request scenario_env ''abc''),
       ConsoleError ''Serverless function error:''
         [LogExn (NoPrimitive (JObj [(''toString'', JNum (Fin 1))]))]])\<close>
  by (simp add: handler_unfold fixture_defs)

text \<open>The scenario, with a verification answer that has no score.\<close>

theorem missing_score_is_accepted_witness:
  "fetch_urls (snd (handler (node_runtime verified_no_score generated) scenario_env
      (post scenario_body))) = [RECAPTCHA_VERIFY_URL, API_URL scenario_env]
   \<and> Fetch (API_URL scenario_env) (generation_request (JStr ''Hello world'') ''pirate'')
        \<in> set (snd (handler (node_runtime verified_no_score generated) scenario_env
             (post scenario_body)))
   \<and> fst (handler (node_runtime verified_no_score generated) scenario_env
        (post scenario_body)) \<noteq>
        \<lparr>statusCode = 403, body = Plain ''Forbidden. Bot-like activity detected.''\<rparr>"
proof -
  let ?rt = "node_runtime verified_no_score generated"
  have v: "fetch ?rt RECAPTCHA_VERIFY_URL (recaptcha_request scenario_env ''abc'') =
      Inr verified_no_score"
    by (simp add: node_runtime_def)
  have "httpMethod (post scenario_body) = ''POST''"
    and "JSON_parse ?rt (event.body (post scenario_body)) = Inr scenario_payload"
    and "get_prop scenario_payload ''inputText'' = Inr (JStr ''Hello world'')"
    and "get_prop scenario_payload ''style'' = Inr (JStr ''pirate'')"
    and "get_prop scenario_payload ''token'' = Inr (JStr ''abc'')"
    and "GEMINI_API_KEY scenario_env = Some ''AIza-key''"
    and "RECAPTCHA_SECRET_KEY scenario_env = Some ''6L-secret''"
    and "to_string ?rt (JStr ''abc'') = Inr ''abc''"
    and "resp_json verified_no_score = Inr (JObj [(''success'', JBool True)])"
    by (simp_all add: fixture_defs)
  from missing_score_is_accepted[OF this(1,2,3) _ this(4) _ this(5) _ this(6) _ this(7) _
      this(8) v this(9), of "''pirate''"]
  show ?thesis
    by simp
qed

subsection \<open>C1: the score at the threshold\<close>

text \<open>
  Claim C1 says that a verification with \<^verbatim>\<open>success\<close> true and a score of at most 0.5 is
  answered with 403 and that the generation service is then not called, as the comment
  above the test says (success and a score above 0.5). The test rejects a score below
  0.5 only. On the scenario with a score of exactly 0.5 the handler calls the generation
  service and returns 200.
\<close>

theorem score_at_threshold_is_accepted:
  "handler (node_runtime verified_0_5 generated) scenario_env (post scenario_body) =
   (\<lparr>statusCode = 200,
     body = Stringify (JObj [(''reformulatedText'', JStr ''Ahoy, world!'')])\<rparr>,
    [Fetch RECAPTCHA_VERIFY_URL (recaptcha_request scenario_env ''abc''),
     Fetch (API_URL scenario_env) (generation_request (JStr ''Hello world'') ''pirate'')])"
  by (simp add: handler_unfold fixture_defs)

subsection \<open>C6: an answer without a first candidate\<close>

text \<open>
  Claim C6 says that an OK answer of the generation service without a \<^verbatim>\<open>candidates\<close>
  array, without a first candidate, or whose first candidate lacks \<^verbatim>\<open>content\<close>,
  \<^verbatim>\<open>parts\<close> or \<^verbatim>\<open>text\<close>, is answered with status 500 and the body
  \<^verbatim>\<open>Invalid response from Google AI.\<close>, and that the answer is logged. The test guards
  every step with \<^verbatim>\<open>?.\<close> but the step from \<^verbatim>\<open>candidates[0]\<close> to \<^verbatim>\<open>.content\<close>. On the
  scenario with the answer \<^verbatim>\<open>{"candidates":[]}\<close> that step throws a TypeError: the
  \<^verbatim>\<open>catch\<close> returns status 500 with the message of the TypeError as body, and logs the
  error, not the answer.
\<close>

theorem no_first_candidate_is_uncaught:
  "handler (node_runtime verified_0_9 generated_none) scenario_env (post scenario_body) =
     (\<lparr>statusCode = 500,
       body = Stringify (JObj [(''error'',
         JStr ''Cannot read properties of undefined (reading 'content')'')])\<rparr>,
      [Fetch RECAPTCHA_VERIFY_URL (recaptcha_request scenario_env ''abc''),
       Fetch (API_URL scenario_env) (generation_request (JStr ''Hello world'') ''pirate''),
       ConsoleError ''Serverless function error:''
         [LogExn (NullishAccess Undefined ''content'')]])"
  by (simp add: handler_unfold fixture_defs)

end
